theory Spec2Isabelle
  imports Complex_Main "HOL-Library.Multiset" "HOL-Library.Signed_Division"
begin

section \<open>float64 values\<close>

text \<open>
  A Go \<open>float64\<close> is modelled as NaN, one of the two infinities, or a finite value
  carried as a real number. Arithmetic on finite values is exact: rounding, overflow
  to an infinity and the sign of zero are outside the model. NaN and the infinities
  follow IEEE-754 as Go implements it: every arithmetic operation with a NaN operand
  is NaN, every ordered comparison with a NaN operand is false.

  A result stated through \<open>fadd\<close>, \<open>fsub\<close> or \<open>fdiv\<close> stands for the code's \<open>+\<close>,
  \<open>-\<close> or \<open>/\<close>. No general theorem below equates such a result with a sum or a
  quotient of real numbers; where one depends on the arithmetic, it names the law it
  uses.
\<close>

datatype float64 = NaN | NInf | PInf | Fin real

fun IsNaN :: "float64 \<Rightarrow> bool" where
  "IsNaN NaN = True"
| "IsNaN _ = False"

fun fneg :: "float64 \<Rightarrow> float64" where
  "fneg NaN = NaN"
| "fneg NInf = PInf"
| "fneg PInf = NInf"
| "fneg (Fin a) = Fin (- a)"

fun fadd :: "float64 \<Rightarrow> float64 \<Rightarrow> float64" where
  "fadd NaN _ = NaN"
| "fadd _ NaN = NaN"
| "fadd PInf NInf = NaN"
| "fadd NInf PInf = NaN"
| "fadd PInf _ = PInf"
| "fadd _ PInf = PInf"
| "fadd NInf _ = NInf"
| "fadd _ NInf = NInf"
| "fadd (Fin a) (Fin b) = Fin (a + b)"

definition fsub :: "float64 \<Rightarrow> float64 \<Rightarrow> float64" where
  "fsub x y = fadd x (fneg y)"

fun fdiv :: "float64 \<Rightarrow> float64 \<Rightarrow> float64" where
  "fdiv NaN _ = NaN"
| "fdiv _ NaN = NaN"
| "fdiv (Fin a) (Fin b) =
     (if b = 0 then (if a = 0 then NaN else if 0 < a then PInf else NInf)
      else Fin (a / b))"
| "fdiv (Fin a) _ = Fin 0"
| "fdiv PInf (Fin b) = (if 0 \<le> b then PInf else NInf)"
| "fdiv NInf (Fin b) = (if 0 \<le> b then NInf else PInf)"
| "fdiv _ _ = NaN"

text \<open>The comparisons \<open>x < y\<close> and \<open>x <= y\<close> of two float64 values.\<close>

fun flt :: "float64 \<Rightarrow> float64 \<Rightarrow> bool" where
  "flt NaN _ = False"
| "flt _ NaN = False"
| "flt _ NInf = False"
| "flt NInf _ = True"
| "flt PInf _ = False"
| "flt _ PInf = True"
| "flt (Fin a) (Fin b) = (a < b)"

fun fle :: "float64 \<Rightarrow> float64 \<Rightarrow> bool" where
  "fle NaN _ = False"
| "fle _ NaN = False"
| "fle NInf _ = True"
| "fle _ NInf = False"
| "fle _ PInf = True"
| "fle PInf _ = False"
| "fle (Fin a) (Fin b) = (a \<le> b)"

text \<open>
  \<open>math.Min\<close> and \<open>math.Max\<close> of the Go library: an infinity of the matching sign wins
  first, then a NaN operand gives NaN, then the comparison decides.
\<close>

definition math_Min :: "float64 \<Rightarrow> float64 \<Rightarrow> float64" where
  "math_Min x y =
     (if x = NInf \<or> y = NInf then NInf
      else if IsNaN x \<or> IsNaN y then NaN
      else if flt x y then x else y)"

definition math_Max :: "float64 \<Rightarrow> float64 \<Rightarrow> float64" where
  "math_Max x y =
     (if x = PInf \<or> y = PInf then PInf
      else if IsNaN x \<or> IsNaN y then NaN
      else if flt y x then x else y)"


fun fmul :: "float64 \<Rightarrow> float64 \<Rightarrow> float64" where
  "fmul NaN _ = NaN"
| "fmul _ NaN = NaN"
| "fmul (Fin a) (Fin b) = Fin (a * b)"
| "fmul (Fin a) PInf = (if a = 0 then NaN else if 0 < a then PInf else NInf)"
| "fmul (Fin a) NInf = (if a = 0 then NaN else if 0 < a then NInf else PInf)"
| "fmul PInf (Fin b) = (if b = 0 then NaN else if 0 < b then PInf else NInf)"
| "fmul NInf (Fin b) = (if b = 0 then NaN else if 0 < b then NInf else PInf)"
| "fmul PInf PInf = PInf"
| "fmul NInf NInf = PInf"
| "fmul _ _ = NInf"

section \<open>Data model of package api\<close>

text \<open>
  Modelled from the spec: the declaration of \<open>api.Timerange\<close> is not part of the
  sources at hand. A timerange is \<open>(start_ms, end_ms, resolution_ms)\<close>, all int64
  milliseconds, read by the methods \<open>Start\<close>, \<open>End\<close> and \<open>Resolution\<close>.
\<close>

record Timerange =
  start_ms :: int
  end_ms :: int
  resolution_ms :: int

definition Start :: "Timerange \<Rightarrow> int" where
  "Start t = start_ms t"

definition End :: "Timerange \<Rightarrow> int" where
  "End t = end_ms t"

definition Resolution :: "Timerange \<Rightarrow> int" where
  "Resolution t = resolution_ms t"

text \<open>
  A Go \<open>map[string]string\<close>; reading a key that is absent gives the empty string.
\<close>

type_synonym TagSet = "string \<rightharpoonup> string"

definition lookup :: "TagSet \<Rightarrow> string \<Rightarrow> string" where
  "lookup m k = (case m k of None \<Rightarrow> [] | Some v \<Rightarrow> v)"

record Timeseries =
  Values :: "float64 list"
  TagSet :: TagSet

record SeriesList =
  Series :: "Timeseries list"
  Timerange :: Timerange
  Name :: string

text \<open>The variants of \<open>function.Value\<close>, and the errors and panics of the code.\<close>

datatype "value" =
    ScalarValue float64
  | DurationValue int
  | StringValue string
  | SeriesListValue SeriesList

datatype error =
    ConversionError
  | FetchLimitExceeded
  | ExternalError string
  | PanicEmptyGroup
  | PanicIndexOutOfRange
  | PanicDivideByZero
  | PanicNegativeLen

section \<open>Package transform\<close>

type_synonym transform = "float64 list \<Rightarrow> value list \<Rightarrow> float64 \<Rightarrow> error + float64 list"

definition transformTimeseries ::
  "Timeseries \<Rightarrow> transform \<Rightarrow> value list \<Rightarrow> float64 \<Rightarrow> error + Timeseries" where
  "transformTimeseries series transform parameters scale =
     (case transform (Values series) parameters scale of
        Inl err \<Rightarrow> Inl err
      | Inr values \<Rightarrow> Inr \<lparr>Values = values, TagSet = TagSet series\<rparr>)"

text \<open>
  The loop of \<open>ApplyTransform\<close> over \<open>list.Series\<close>: it fills the result in order
  and returns at the first error.
\<close>

fun ApplyTransform_loop ::
  "Timeseries list \<Rightarrow> transform \<Rightarrow> value list \<Rightarrow> float64 \<Rightarrow> error + Timeseries list" where
  "ApplyTransform_loop [] transform parameters scale = Inr []"
| "ApplyTransform_loop (series # rest) transform parameters scale =
     (case transformTimeseries series transform parameters scale of
        Inl err \<Rightarrow> Inl err
      | Inr r \<Rightarrow>
          (case ApplyTransform_loop rest transform parameters scale of
             Inl err \<Rightarrow> Inl err
           | Inr rs \<Rightarrow> Inr (r # rs)))"

definition ApplyTransform ::
  "SeriesList \<Rightarrow> transform \<Rightarrow> value list \<Rightarrow> error + SeriesList" where
  "ApplyTransform list transform parameters =
     (case ApplyTransform_loop (Series list) transform parameters
             (fdiv (Fin (of_int (Resolution (Timerange list)))) (Fin 1000)) of
        Inl err \<Rightarrow> Inl err
      | Inr rs \<Rightarrow> Inr \<lparr>Series = rs, Timerange = Timerange list, Name = Name list\<rparr>)"

text \<open>
  \<open>Derivative\<close> and \<open>Rate\<close> write \<open>result[i]\<close> from \<open>values[i]\<close> and \<open>values[i-1]\<close>
  alone, so the loop body is a function of the index.
\<close>

definition Derivative :: transform where
  "Derivative values parameters scale =
     Inr (map (\<lambda>i. if i = 0 then Fin 0
                    else fdiv (fsub (values ! i) (values ! (i - 1))) scale)
              [0..<length values])"

definition Rate :: transform where
  "Rate values parameters scale =
     Inr (map (\<lambda>i. if i = 0 then Fin 0
                    else (let r = fdiv (fsub (values ! i) (values ! (i - 1))) scale
                          in if flt r (Fin 0) then Fin 0 else r))
              [0..<length values])"

text \<open>\<open>Integral\<close> and \<open>Cumulative\<close> carry a running sum through the loop.\<close>

fun Integral_loop :: "float64 \<Rightarrow> float64 \<Rightarrow> float64 list \<Rightarrow> float64 list" where
  "Integral_loop scale integral [] = []"
| "Integral_loop scale integral (v # vs) =
     (let integral' = (if \<not> IsNaN v then fadd integral v else integral)
      in fmul integral' scale # Integral_loop scale integral' vs)"

definition Integral :: transform where
  "Integral values parameters scale = Inr (Integral_loop scale (Fin 0) values)"

fun Cumulative_loop :: "float64 \<Rightarrow> float64 list \<Rightarrow> float64 list" where
  "Cumulative_loop acc [] = []"
| "Cumulative_loop acc (v # vs) =
     (let acc' = (if \<not> IsNaN v then fadd acc v else acc)
      in acc' # Cumulative_loop acc' vs)"

definition Cumulative :: transform where
  "Cumulative values parameters scale = Inr (Cumulative_loop (Fin 0) values)"

section \<open>Package aggregate\<close>

text \<open>
  A \<open>group\<close> is a list of series with the tag set they were grouped on (the fields
  \<open>List\<close> and \<open>TagSet\<close> of the Go struct).
\<close>

record group =
  GroupList :: "Timeseries list"
  GroupTagSet :: TagSet

fun groupAccepts :: "TagSet \<Rightarrow> TagSet \<Rightarrow> string list \<Rightarrow> bool" where
  "groupAccepts left right [] = True"
| "groupAccepts left right (tag # tags) =
     (if lookup left tag \<noteq> lookup right tag then False
      else groupAccepts left right tags)"

text \<open>
  The first loop of \<open>addToGroup\<close>: a fresh tag set that maps every tag of \<open>tags\<close> to
  the series' value for it (the empty string when the series has no such tag).
\<close>

fun newTags_loop :: "TagSet \<Rightarrow> TagSet \<Rightarrow> string list \<Rightarrow> TagSet" where
  "newTags_loop newTags seriesTags [] = newTags"
| "newTags_loop newTags seriesTags (tag # tags) =
     newTags_loop (newTags(tag \<mapsto> lookup seriesTags tag)) seriesTags tags"

text \<open>
  The second loop of \<open>addToGroup\<close>: the first row that accepts the series gets it
  appended; \<open>None\<close> when no row accepts it.
\<close>

fun addToGroup_find :: "group list \<Rightarrow> Timeseries \<Rightarrow> string list \<Rightarrow> group list option" where
  "addToGroup_find [] series tags = None"
| "addToGroup_find (row # rows) series tags =
     (if groupAccepts (GroupTagSet row) (TagSet series) tags
      then Some (row\<lparr>GroupList := GroupList row @ [series]\<rparr> # rows)
      else map_option ((#) row) (addToGroup_find rows series tags))"

definition addToGroup :: "group list \<Rightarrow> Timeseries \<Rightarrow> string list \<Rightarrow> group list" where
  "addToGroup rows series tags =
     (let newTags = newTags_loop Map.empty (TagSet series) tags;
          series' = series\<lparr>TagSet := newTags\<rparr>
      in case addToGroup_find rows series' tags of
           Some rows' \<Rightarrow> rows'
         | None \<Rightarrow> rows @ [\<lparr>GroupList = [series'], GroupTagSet = newTags\<rparr>])"

definition groupBy :: "SeriesList \<Rightarrow> string list \<Rightarrow> group list" where
  "groupBy list tags = foldl (\<lambda>result series. addToGroup result series tags) [] (Series list)"

text \<open>
  The aggregators \<open>Sum\<close>, \<open>Mean\<close>, \<open>Min\<close> and \<open>Max\<close>; the last two are named
  \<open>aggregate_Min\<close> and \<open>aggregate_Max\<close> here.
\<close>

fun filterNaN :: "float64 list \<Rightarrow> float64 list" where
  "filterNaN [] = []"
| "filterNaN (v # array) = (if \<not> IsNaN v then v # filterNaN array else filterNaN array)"

definition Sum :: "float64 list \<Rightarrow> float64" where
  "Sum array = foldl fadd (Fin 0) (filterNaN array)"

definition Mean :: "float64 list \<Rightarrow> float64" where
  "Mean array =
     (let array' = filterNaN array
      in if length array' = 0 then NaN
         else fdiv (foldl fadd (Fin 0) array') (Fin (of_nat (length array'))))"

definition aggregate_Min :: "float64 list \<Rightarrow> float64" where
  "aggregate_Min array =
     (let array' = filterNaN array
      in if length array' = 0 then NaN
         else foldl math_Min (hd array') array')"

definition aggregate_Max :: "float64 list \<Rightarrow> float64" where
  "aggregate_Max array =
     (let array' = filterNaN array
      in if length array' = 0 then NaN
         else foldl math_Max (hd array') array')"

text \<open>
  \<open>timeSlice[j] = list[j].Values[i]\<close> for every member of the group; reading past the
  end of a member's values panics.
\<close>

fun timeSlice :: "Timeseries list \<Rightarrow> nat \<Rightarrow> error + float64 list" where
  "timeSlice [] i = Inr []"
| "timeSlice (member # list) i =
     (if i < length (Values member)
      then (case timeSlice list i of
              Inl err \<Rightarrow> Inl err
            | Inr slice \<Rightarrow> Inr (Values member ! i # slice))
      else Inl PanicIndexOutOfRange)"

fun applyAggregation_loop ::
  "Timeseries list \<Rightarrow> (float64 list \<Rightarrow> float64) \<Rightarrow> nat list \<Rightarrow> error + float64 list" where
  "applyAggregation_loop list aggregator [] = Inr []"
| "applyAggregation_loop list aggregator (i # is) =
     (case timeSlice list i of
        Inl err \<Rightarrow> Inl err
      | Inr slice \<Rightarrow>
          (case applyAggregation_loop list aggregator is of
             Inl err \<Rightarrow> Inl err
           | Inr values \<Rightarrow> Inr (aggregator slice # values)))"

definition applyAggregation :: "group \<Rightarrow> (float64 list \<Rightarrow> float64) \<Rightarrow> error + Timeseries" where
  "applyAggregation grp aggregator =
     (let list = GroupList grp; tagSet = GroupTagSet grp
      in if length list = 0 then Inl PanicEmptyGroup
         else (case applyAggregation_loop list aggregator [0..<length (Values (hd list))] of
                 Inl err \<Rightarrow> Inl err
               | Inr values \<Rightarrow> Inr \<lparr>Values = values, TagSet = tagSet\<rparr>))"

fun AggregateBy_loop ::
  "group list \<Rightarrow> (float64 list \<Rightarrow> float64) \<Rightarrow> error + Timeseries list" where
  "AggregateBy_loop [] aggregator = Inr []"
| "AggregateBy_loop (grp # groups) aggregator =
     (case applyAggregation grp aggregator of
        Inl err \<Rightarrow> Inl err
      | Inr series \<Rightarrow>
          (case AggregateBy_loop groups aggregator of
             Inl err \<Rightarrow> Inl err
           | Inr result \<Rightarrow> Inr (series # result)))"

definition AggregateBy ::
  "SeriesList \<Rightarrow> (float64 list \<Rightarrow> float64) \<Rightarrow> string list \<Rightarrow> error + SeriesList" where
  "AggregateBy list aggregator tags =
     (case AggregateBy_loop (groupBy list tags) aggregator of
        Inl err \<Rightarrow> Inl err
      | Inr result \<Rightarrow> Inr \<lparr>Series = result, Timerange = Timerange list, Name = Name list\<rparr>)"

section \<open>Package blueflood\<close>

text \<open>
  An int64 is carried as an \<open>int\<close>; \<open>int64\<close> wraps a result into the signed 64-bit
  range. Go's integer division truncates towards zero (\<open>sdiv\<close>) and panics on a zero
  divisor.
\<close>

definition int64 :: "int \<Rightarrow> int" where
  "int64 x = (x + 2 ^ 63) mod 2 ^ 64 - 2 ^ 63"

definition int64_div :: "int \<Rightarrow> int \<Rightarrow> error + int" where
  "int64_div x y = (if y = 0 then Inl PanicDivideByZero else Inr (int64 (x sdiv y)))"

text \<open>
  Modelled from the spec: \<open>Timerange.Slots\<close> is not part of the sources at hand;
  \<open>slots = (end_ms - start_ms) / resolution_ms + 1\<close>, here with the int64 arithmetic of
  the language, so that a zero resolution panics.
\<close>

definition Slots :: "Timerange \<Rightarrow> error + int" where
  "Slots t =
     (case int64_div (int64 (End t - Start t)) (Resolution t) of
        Inl err \<Rightarrow> Inl err
      | Inr q \<Rightarrow> Inr (int64 (q + 1)))"

record metricPoint =
  Points :: int
  Timestamp :: int
  Average :: float64
  Max_p :: float64
  Min_p :: float64
  Variance :: float64

record queryResponse =
  ResponseValues :: "metricPoint list"

datatype SampleMethod = SampleMean | SampleMin | SampleMax

record sampler =
  fieldName :: string
  fieldSelector :: "metricPoint \<Rightarrow> float64"
  bucketSampler :: "float64 list \<Rightarrow> error + float64"

text \<open>
  The three bucket samplers of \<open>samplerMap\<close>. The min and max samplers read
  \<open>bucket[0]\<close>, which panics on an empty bucket.
\<close>

definition bucketSampler_mean :: "float64 list \<Rightarrow> error + float64" where
  "bucketSampler_mean bucket =
     Inr (fdiv (foldl fadd (Fin 0) bucket) (Fin (of_nat (length bucket))))"

definition bucketSampler_min :: "float64 list \<Rightarrow> error + float64" where
  "bucketSampler_min bucket =
     (case bucket of
        [] \<Rightarrow> Inl PanicIndexOutOfRange
      | v # _ \<Rightarrow> Inr (foldl math_Min v bucket))"

definition bucketSampler_max :: "float64 list \<Rightarrow> error + float64" where
  "bucketSampler_max bucket =
     (case bucket of
        [] \<Rightarrow> Inl PanicIndexOutOfRange
      | v # _ \<Rightarrow> Inr (foldl math_Max v bucket))"

fun samplerMap :: "SampleMethod \<Rightarrow> sampler" where
  "samplerMap SampleMean =
     \<lparr>fieldName = ''average'', fieldSelector = Average, bucketSampler = bucketSampler_mean\<rparr>"
| "samplerMap SampleMin =
     \<lparr>fieldName = ''min'', fieldSelector = Min_p, bucketSampler = bucketSampler_min\<rparr>"
| "samplerMap SampleMax =
     \<lparr>fieldName = ''max'', fieldSelector = Max_p, bucketSampler = bucketSampler_max\<rparr>"

text \<open>
  \<open>addMetricPoint\<close> appends the point's value to the bucket of its index and reports
  whether it did; the buckets are returned updated. \<open>slots\<close> is the value of
  \<open>timerange.Slots()\<close>, the length of \<open>buckets\<close>.
\<close>

definition addMetricPoint ::
  "metricPoint \<Rightarrow> (metricPoint \<Rightarrow> float64) \<Rightarrow> Timerange \<Rightarrow> int \<Rightarrow> float64 list list
     \<Rightarrow> error + (bool \<times> float64 list list)" where
  "addMetricPoint point field timerange slots buckets =
     (let v = field point
      in case int64_div (int64 (Timestamp point - Start timerange)) (Resolution timerange) of
           Inl err \<Rightarrow> Inl err
         | Inr index \<Rightarrow>
             if index < 0 \<or> index \<ge> slots then Inr (False, buckets)
             else Inr (True, buckets[nat index := buckets ! nat index @ [v]]))"

fun bucketsFromMetricPoints_loop ::
  "metricPoint list \<Rightarrow> (metricPoint \<Rightarrow> float64) \<Rightarrow> Timerange \<Rightarrow> int \<Rightarrow> float64 list list
     \<Rightarrow> error + float64 list list" where
  "bucketsFromMetricPoints_loop [] field timerange slots buckets = Inr buckets"
| "bucketsFromMetricPoints_loop (point # points) field timerange slots buckets =
     (case addMetricPoint point field timerange slots buckets of
        Inl err \<Rightarrow> Inl err
      | Inr (_, buckets') \<Rightarrow> bucketsFromMetricPoints_loop points field timerange slots buckets')"

definition bucketsFromMetricPoints ::
  "metricPoint list \<Rightarrow> (metricPoint \<Rightarrow> float64) \<Rightarrow> Timerange \<Rightarrow> error + float64 list list" where
  "bucketsFromMetricPoints metricPoints resultField timerange =
     (case Slots timerange of
        Inl err \<Rightarrow> Inl err
      | Inr slots \<Rightarrow>
          if slots < 0 then Inl PanicNegativeLen
          else bucketsFromMetricPoints_loop metricPoints resultField timerange slots
                 (replicate (nat slots) []))"

fun processResult_loop :: "float64 list list \<Rightarrow> sampler \<Rightarrow> error + float64 list" where
  "processResult_loop [] sampler = Inr []"
| "processResult_loop (bucket # buckets) sampler =
     (case (if length bucket = 0 then Inr NaN else bucketSampler sampler bucket) of
        Inl err \<Rightarrow> Inl err
      | Inr v \<Rightarrow>
          (case processResult_loop buckets sampler of
             Inl err \<Rightarrow> Inl err
           | Inr values \<Rightarrow> Inr (v # values)))"

definition processResult :: "queryResponse \<Rightarrow> Timerange \<Rightarrow> sampler \<Rightarrow> error + float64 list" where
  "processResult parsedResult timerange sampler =
     (case bucketsFromMetricPoints (ResponseValues parsedResult) (fieldSelector sampler) timerange of
        Inl err \<Rightarrow> Inl err
      | Inr buckets \<Rightarrow> processResult_loop buckets sampler)"

section \<open>Package query: evaluation of a fetch expression\<close>

text \<open>
  Modelled from the spec: \<open>api.Predicate\<close>, \<open>api.TruePredicate\<close> and the \<open>andPredicate\<close>
  of package query are not part of the sources at hand. A predicate is applied to a
  tag set; \<open>true\<close> holds of every tag set and \<open>and(list)\<close> holds when every predicate
  of the list does. \<open>tagPredicate\<close> stands for any other implementation of the
  interface.
\<close>

datatype Predicate =
    TruePredicate
  | andPredicate "Predicate list"
  | tagPredicate "TagSet \<Rightarrow> bool"

fun Apply :: "Predicate \<Rightarrow> TagSet \<Rightarrow> bool" where
  "Apply TruePredicate ts = True"
| "Apply (andPredicate predicates) ts = (\<forall>p \<in> set predicates. Apply p ts)"
| "Apply (tagPredicate f) ts = f ts"

record TaggedMetric =
  MetricKey :: string
  MetricTagSet :: TagSet

text \<open>
  The request handed to the multi-backend. The handles it also carries (API,
  cancellation, profiler) are left out.
\<close>

record FetchMultipleRequest =
  Metrics :: "TaggedMetric list"
  RequestSampleMethod :: SampleMethod
  RequestTimerange :: Timerange

text \<open>
  The evaluation context. Its collaborators are not part of the sources at hand and
  are taken as they come: \<open>API.GetAllTags\<close> and \<open>MultiBackend.FetchMultipleSeries\<close> as
  functions that return a result or an error, and \<open>FetchLimit.Consume\<close> as a
  function on the state \<open>'c\<close> of the counter that reports whether the units were
  admitted and returns the counter's new state.
\<close>

record 'c EvaluationContext =
  API_GetAllTags :: "string \<Rightarrow> error + TagSet list"
  MultiBackend_FetchMultipleSeries :: "FetchMultipleRequest \<Rightarrow> error + SeriesList"
  ContextPredicate :: "Predicate option"
  ContextSampleMethod :: SampleMethod
  ContextTimerange :: Timerange
  FetchLimit_Consume :: "'c \<Rightarrow> int \<Rightarrow> bool \<times> 'c"

record metricFetchExpression =
  metricName :: string
  predicate :: "Predicate option"

fun applyPredicates :: "TagSet list \<Rightarrow> Predicate \<Rightarrow> TagSet list" where
  "applyPredicates [] p = []"
| "applyPredicates (ts # tagSets) p =
     (if Apply p ts then ts # applyPredicates tagSets p
      else applyPredicates tagSets p)"

text \<open>
  \<open>Evaluate\<close> of a \<open>metricFetchExpression\<close>. It takes the state of the fetch-limit
  counter and returns, with its result, the counter's state afterwards and the
  multi-fetch requests it issued, in order.
\<close>

definition Evaluate ::
  "metricFetchExpression \<Rightarrow> 'c EvaluationContext \<Rightarrow> 'c
     \<Rightarrow> (error + value) \<times> 'c \<times> FetchMultipleRequest list" where
  "Evaluate expr context counter =
     (let predicate' =
            (case (ContextPredicate context, predicate expr) of
               (None, None) \<Rightarrow> TruePredicate
             | (None, Some p) \<Rightarrow> p
             | (Some c, None) \<Rightarrow> c
             | (Some c, Some p) \<Rightarrow> andPredicate [p, c])
      in case API_GetAllTags context (metricName expr) of
           Inl err \<Rightarrow> (Inl err, counter, [])
         | Inr metricTagSets \<Rightarrow>
             (let filtered = applyPredicates metricTagSets predicate';
                  (ok, counter') = FetchLimit_Consume context counter (int (length filtered))
              in if \<not> ok then (Inl FetchLimitExceeded, counter', [])
                 else
                   (let metrics = map (\<lambda>ts. \<lparr>MetricKey = metricName expr, MetricTagSet = ts\<rparr>)
                                      filtered;
                        request = \<lparr>Metrics = metrics,
                                   RequestSampleMethod = ContextSampleMethod context,
                                   RequestTimerange = ContextTimerange context\<rparr>
                    in case MultiBackend_FetchMultipleSeries context request of
                         Inl err \<Rightarrow> (Inl err, counter', [request])
                       | Inr serieslist \<Rightarrow>
                           (Inr (SeriesListValue (serieslist\<lparr>Name := metricName expr\<rparr>)),
                            counter', [request]))))"

section \<open>Package internal: the naming rules\<close>



















section \<open>Notions used to state the properties\<close>

text \<open>
  A vector is monotonically nondecreasing when every earlier entry is \<open><=\<close> every
  later one, in the float64 comparison.
\<close>

definition nondecreasing :: "float64 list \<Rightarrow> bool" where
  "nondecreasing xs = sorted_wrt fle xs"

definition finite_or_NaN :: "float64 \<Rightarrow> bool" where
  "finite_or_NaN v = (case v of NaN \<Rightarrow> True | Fin r \<Rightarrow> True | _ \<Rightarrow> False)"

text \<open>
  The projection of a tag set onto a list of tags: it has exactly the tags of the
  list, each with the value the tag set gives it, an absent tag reading as the empty
  string. \<open>retag\<close> replaces a series' tag set by its projection.
\<close>

definition project :: "string list \<Rightarrow> TagSet \<Rightarrow> TagSet" where
  "project tags ts = (\<lambda>k. if k \<in> set tags then Some (lookup ts k) else None)"

definition retag :: "string list \<Rightarrow> Timeseries \<Rightarrow> Timeseries" where
  "retag tags s = s\<lparr>TagSet := project tags (TagSet s)\<rparr>"

text \<open>The distinct elements of a list, each at the place of its first occurrence.\<close>

fun first_seen :: "'a list \<Rightarrow> 'a list" where
  "first_seen [] = []"
| "first_seen (x # xs) = x # removeAll x (first_seen xs)"

text \<open>
  The groups of a list of series in closed form: one group per distinct projected tag
  set, in order of first occurrence, holding the retagged series with that tag set in
  input order.
\<close>

definition groups_of :: "string list \<Rightarrow> Timeseries list \<Rightarrow> group list" where
  "groups_of tags ss =
     map (\<lambda>t. \<lparr>GroupList = filter (\<lambda>s. TagSet s = t) (map (retag tags) ss), GroupTagSet = t\<rparr>)
         (first_seen (map (\<lambda>s. project tags (TagSet s)) ss))"

text \<open>
  The merge of the context predicate and the local predicate of a fetch expression,
  either of which may be absent: a tag set passes when it satisfies each predicate
  that is present.
\<close>

definition merged_holds :: "Predicate option \<Rightarrow> Predicate option \<Rightarrow> TagSet \<Rightarrow> bool" where
  "merged_holds contextPredicate localPredicate ts =
     ((case contextPredicate of None \<Rightarrow> True | Some c \<Rightarrow> Apply c ts)
      \<and> (case localPredicate of None \<Rightarrow> True | Some p \<Rightarrow> Apply p ts))"




section \<open>Fixtures of the repository's tests\<close>

text \<open>\<open>listA\<close> of \<open>Test_groupBy\<close>.\<close>

definition listA :: SeriesList where
  "listA =
     \<lparr>Series =
        [\<lparr>Values = [Fin 0, Fin 0, Fin 0],
          TagSet = [''dc'' \<mapsto> ''A'', ''env'' \<mapsto> ''production'', ''host'' \<mapsto> ''#1'']\<rparr>,
         \<lparr>Values = [Fin 1, Fin 1, Fin 1],
          TagSet = [''dc'' \<mapsto> ''B'', ''env'' \<mapsto> ''staging'', ''host'' \<mapsto> ''#1'']\<rparr>,
         \<lparr>Values = [Fin 2, Fin 2, Fin 2],
          TagSet = [''dc'' \<mapsto> ''C'', ''env'' \<mapsto> ''staging'', ''host'' \<mapsto> ''#1'']\<rparr>,
         \<lparr>Values = [Fin 3, Fin 3, Fin 3],
          TagSet = [''dc'' \<mapsto> ''B'', ''env'' \<mapsto> ''production'', ''host'' \<mapsto> ''#2'']\<rparr>,
         \<lparr>Values = [Fin 4, Fin 4, Fin 4],
          TagSet = [''dc'' \<mapsto> ''C'', ''env'' \<mapsto> ''staging'', ''host'' \<mapsto> ''#2'']\<rparr>],
      Timerange = \<lparr>start_ms = 0, end_ms = 0, resolution_ms = 0\<rparr>,
      Name = []\<rparr>"

text \<open>
  The four identically tagged series of \<open>testGroup\<close> in \<open>Test_applyAggregation\<close>, as a
  series list over a timerange of four slots.
\<close>

definition testGroup :: SeriesList where
  "testGroup =
     \<lparr>Series =
        [\<lparr>Values = [Fin 0, Fin 1, Fin 2, Fin 3],
          TagSet = [''env'' \<mapsto> ''production'', ''dc'' \<mapsto> ''A'']\<rparr>,
         \<lparr>Values = [Fin 4, Fin 0, Fin 4, Fin 4],
          TagSet = [''env'' \<mapsto> ''production'', ''dc'' \<mapsto> ''A'']\<rparr>,
         \<lparr>Values = [Fin (- 1), Fin (- 1), Fin 2, Fin 2],
          TagSet = [''env'' \<mapsto> ''production'', ''dc'' \<mapsto> ''A'']\<rparr>,
         \<lparr>Values = [Fin 0, Fin 2, Fin 0, Fin 2],
          TagSet = [''env'' \<mapsto> ''production'', ''dc'' \<mapsto> ''A'']\<rparr>],
      Timerange = \<lparr>start_ms = 0, end_ms = 90000, resolution_ms = 30000\<rparr>,
      Name = ''test''\<rparr>"

text \<open>
  A context whose API knows two tag sets for every metric, whose multi-backend returns
  an empty series per requested metric, and whose fetch-limit counter counts admitted
  fetches up to \<open>fetchLimit\<close>; and a fetch of \<open>cpu\<close> restricted to \<open>host = a\<close>.
\<close>

definition fetchContext :: "int \<Rightarrow> int EvaluationContext" where
  "fetchContext fetchLimit = \<lparr>API_GetAllTags = (\<lambda>key. Inr [[''host'' \<mapsto> ''a''], [''host'' \<mapsto> ''b'']]),
           MultiBackend_FetchMultipleSeries =
             (\<lambda>req. Inr \<lparr>Series = map (\<lambda>m. \<lparr>Values = [], TagSet = MetricTagSet m\<rparr>) (Metrics req),
                          Timerange = RequestTimerange req, Name = []\<rparr>),
           ContextPredicate = None,
           ContextSampleMethod = SampleMean,
           ContextTimerange = \<lparr>start_ms = 0, end_ms = 30000, resolution_ms = 30000\<rparr>,
           FetchLimit_Consume = (\<lambda>c n. if c + n \<le> fetchLimit then (True, c + n) else (False, c))\<rparr>"

definition fetchExpression :: metricFetchExpression where
  "fetchExpression = \<lparr>metricName = ''cpu'',
            predicate = Some (tagPredicate (\<lambda>ts. lookup ts ''host'' = ''a''))\<rparr>"


text \<open>The same context with a multi-backend that fails every request.\<close>

definition failingFetchContext :: "int \<Rightarrow> int EvaluationContext" where
  "failingFetchContext fetchLimit =
     (fetchContext fetchLimit)
       \<lparr>MultiBackend_FetchMultipleSeries := (\<lambda>req. Inl (ExternalError ''fetch timeout''))\<rparr>"





section \<open>Facts about float64\<close>

lemma IsNaN_iff: "IsNaN x \<longleftrightarrow> x = NaN"
  by (cases x) auto

lemma fsub_NaN: "IsNaN x \<or> IsNaN y \<Longrightarrow> fsub x y = NaN"
  by (cases x; cases y) (auto simp: fsub_def)

lemma fle_trans: "fle x y \<Longrightarrow> fle y z \<Longrightarrow> fle x z"
  by (cases x; cases y; cases z) auto

section \<open>Transforms\<close>

text \<open>
  C7. \<open>Derivative\<close> and \<open>Rate\<close> never fail and keep the length. \<open>Derivative\<close> is 0 at
  index 0 and \<open>(v[i] - v[i-1]) / scale\<close> at every later index, which is NaN as soon
  as \<open>v[i]\<close> or \<open>v[i-1]\<close> is NaN. \<open>Rate\<close> is \<open>Derivative\<close> with every negative
  entry replaced by 0; an entry that is NaN stays NaN.
\<close>

theorem Derivative_Rate_spec:
  "\<exists>ds rs. Derivative values parameters scale = Inr ds
      \<and> Rate values parameters scale = Inr rs
      \<and> length ds = length values \<and> length rs = length values
      \<and> (\<forall>i < length values.
            ds ! i = (if i = 0 then Fin 0
                      else fdiv (fsub (values ! i) (values ! (i - 1))) scale)
          \<and> (0 < i \<and> (IsNaN (values ! i) \<or> IsNaN (values ! (i - 1))) \<longrightarrow> IsNaN (ds ! i))
          \<and> rs ! i = (if flt (ds ! i) (Fin 0) then Fin 0 else ds ! i)
          \<and> (IsNaN (ds ! i) \<longrightarrow> IsNaN (rs ! i)))"
  by (auto simp: Derivative_def Rate_def Let_def fsub_NaN IsNaN_iff)

theorem Derivative_Rate_spec_witness:
  "(2 :: nat) < length [Fin 0, Fin 1, NaN, Fin 3, Fin 2]
   \<and> IsNaN ([Fin 0, Fin 1, NaN, Fin 3, Fin 2] ! 2)
   \<and> Derivative [Fin 0, Fin 1, NaN, Fin 3, Fin 2] [] (Fin 30)
       = Inr [Fin 0, Fin (1 / 30), NaN, NaN, Fin (- 1 / 30)]
   \<and> Rate [Fin 0, Fin 1, NaN, Fin 3, Fin 2] [] (Fin 30)
       = Inr [Fin 0, Fin (1 / 30), NaN, NaN, Fin 0]"
  using Derivative_Rate_spec [of "[Fin 0, Fin 1, NaN, Fin 3, Fin 2]" "[]" "Fin 30"]
  by (simp add: Derivative_def Rate_def fsub_def upt_rec [of 0] upt_rec [of 1]
        upt_rec [of 2] upt_rec [of 3] upt_rec [of 4] upt_rec [of 5])

lemma Cumulative_loop_length: "length (Cumulative_loop acc xs) = length xs"
  by (induction xs arbitrary: acc) (simp_all add: Let_def)

lemma fadd_nonneg: "fle (Fin 0) v \<Longrightarrow> fle (Fin a) (fadd (Fin a) v)"
  by (cases v) auto

lemma fadd_negative: "flt v (Fin 0) \<Longrightarrow> fle (fadd (Fin a) v) (Fin a)"
  by (cases v) auto

lemma Cumulative_loop_nth:
  "i < length vs \<Longrightarrow>
   Cumulative_loop acc vs ! i
     = (if IsNaN (vs ! i) then (if i = 0 then acc else Cumulative_loop acc vs ! (i - 1))
        else fadd (if i = 0 then acc else Cumulative_loop acc vs ! (i - 1)) (vs ! i))"
proof (induction vs arbitrary: acc i)
  case Nil
  then show ?case by simp
next
  case (Cons v vs)
  show ?case
  proof (cases i)
    case 0
    then show ?thesis by (simp add: Let_def)
  next
    case (Suc j)
    with Cons.prems have j: "j < length vs" by simp
    show ?thesis
      using Cons.IH [OF j, of "if \<not> IsNaN v then fadd acc v else acc"] Suc
      by (cases j) (simp_all add: Let_def)
  qed
qed

lemma Cumulative_loop_finite:
  "list_all finite_or_NaN vs \<Longrightarrow> x \<in> set (Cumulative_loop (Fin a) vs) \<Longrightarrow> \<exists>r. x = Fin r"
proof (induction vs arbitrary: a)
  case Nil
  then show ?case by simp
next
  case (Cons v vs)
  from Cons.prems(1) have fin: "list_all finite_or_NaN vs" and v: "finite_or_NaN v" by simp_all
  from v obtain b where b: "(if \<not> IsNaN v then fadd (Fin a) v else Fin a) = Fin b"
    by (cases v) (auto simp: finite_or_NaN_def)
  with Cons.prems(2) Cons.IH [OF fin, of b] show ?case
    by (auto simp: Let_def)
qed

text \<open>
  C3, as the code has it. \<open>Cumulative\<close> never fails and keeps the length; its output
  is the running float64 sum of the values that are not NaN, started at 0. For an
  input whose values are finite or NaN: a NaN value leaves the running sum as it was,
  a value greater than or equal to 0 does not lower it and a value less than 0 does
  not raise it; so when every value after the first is NaN or greater than or equal
  to 0, the output is monotonically nondecreasing. Nothing is said in the other
  direction: the first value is free, and a negative value may leave the sum where
  it was.

  Of the float64 addition the proof needs only \<open>fadd_nonneg\<close> and \<open>fadd_negative\<close>
  above, which hold of an addition that rounds to nearest as well.
\<close>

theorem Cumulative_running_sum:
  assumes "list_all finite_or_NaN values"
  shows "\<exists>out. Cumulative values parameters scale = Inr out
           \<and> length out = length values
           \<and> (\<forall>i < length values.
                 out ! i = (if IsNaN (values ! i) then (if i = 0 then Fin 0 else out ! (i - 1))
                            else fadd (if i = 0 then Fin 0 else out ! (i - 1)) (values ! i)))
           \<and> (\<forall>i < length values. 0 < i \<longrightarrow>
                 (IsNaN (values ! i) \<longrightarrow> out ! i = out ! (i - 1))
               \<and> (fle (Fin 0) (values ! i) \<longrightarrow> fle (out ! (i - 1)) (out ! i))
               \<and> (flt (values ! i) (Fin 0) \<longrightarrow> fle (out ! i) (out ! (i - 1))))
           \<and> (list_all (\<lambda>v. IsNaN v \<or> fle (Fin 0) v) (tl values) \<longrightarrow> nondecreasing out)"
proof -
  let ?out = "Cumulative_loop (Fin 0) values"
  have len: "length ?out = length values" by (rule Cumulative_loop_length)
  have rec: "?out ! i = (if IsNaN (values ! i) then (if i = 0 then Fin 0 else ?out ! (i - 1))
                            else fadd (if i = 0 then Fin 0 else ?out ! (i - 1)) (values ! i))"
    if "i < length values" for i
    using that by (rule Cumulative_loop_nth)
  have fin: "\<exists>r. ?out ! i = Fin r" if "i < length values" for i
    using Cumulative_loop_finite [OF assms, of "?out ! i" 0] that len by simp
  have step: "(IsNaN (values ! i) \<longrightarrow> ?out ! i = ?out ! (i - 1))
               \<and> (fle (Fin 0) (values ! i) \<longrightarrow> fle (?out ! (i - 1)) (?out ! i))
               \<and> (flt (values ! i) (Fin 0) \<longrightarrow> fle (?out ! i) (?out ! (i - 1)))"
    if i: "i < length values" "0 < i" for i
  proof -
    from i have "i - 1 < length values" by arith
    from fin [OF this] obtain a where a: "?out ! (i - 1) = Fin a" by auto
    have r: "?out ! i = (if IsNaN (values ! i) then Fin a else fadd (Fin a) (values ! i))"
      using rec [OF i(1)] i(2) a by simp
    show ?thesis
    proof (intro conjI impI)
      assume "IsNaN (values ! i)"
      then show "?out ! i = ?out ! (i - 1)" using r a by simp
    next
      assume nn: "fle (Fin 0) (values ! i)"
      then have "\<not> IsNaN (values ! i)" by (cases "values ! i") auto
      with r a fadd_nonneg [OF nn, of a] show "fle (?out ! (i - 1)) (?out ! i)" by simp
    next
      assume ng: "flt (values ! i) (Fin 0)"
      then have "\<not> IsNaN (values ! i)" by (cases "values ! i") auto
      with r a fadd_negative [OF ng, of a] show "fle (?out ! i) (?out ! (i - 1))" by simp
    qed
  qed
  have mono: "nondecreasing ?out" if all: "list_all (\<lambda>v. IsNaN v \<or> fle (Fin 0) v) (tl values)"
  proof -
    have "fle (?out ! i) (?out ! Suc i)" if s: "Suc i < length ?out" for i
    proof -
      from s len have i: "Suc i < length values" "0 < Suc i" by simp_all
      from fin [of i] i obtain a where a: "?out ! i = Fin a" by auto
      have "values ! Suc i \<in> set (tl values)"
        using i(1) by (cases "values") auto
      with all have "IsNaN (values ! Suc i) \<or> fle (Fin 0) (values ! Suc i)"
        by (simp add: list_all_iff)
      with step [OF i] a show ?thesis by auto
    qed
    moreover have "transp fle" by (auto simp: transp_def intro: fle_trans)
    ultimately show ?thesis
      by (simp add: nondecreasing_def sorted_wrt_iff_nth_Suc_transp)
  qed
  show ?thesis
    using len rec step mono by (auto simp: Cumulative_def)
qed

theorem Cumulative_running_sum_witness:
  "list_all finite_or_NaN [Fin (- 1), NaN, Fin 2, Fin (- 4)]
   \<and> Cumulative [Fin (- 1), NaN, Fin 2, Fin (- 4)] [] (Fin 30)
       = Inr [Fin (- 1), Fin (- 1), Fin 1, Fin (- 3)]
   \<and> list_all finite_or_NaN [Fin (- 1), NaN, Fin 2]
   \<and> list_all (\<lambda>v. IsNaN v \<or> fle (Fin 0) v) (tl [Fin (- 1), NaN, Fin 2])
   \<and> Cumulative [Fin (- 1), NaN, Fin 2] [] (Fin 30) = Inr [Fin (- 1), Fin (- 1), Fin 1]
   \<and> nondecreasing [Fin (- 1), Fin (- 1), Fin 1]"
  using Cumulative_running_sum [of "[Fin (- 1), NaN, Fin 2, Fin (- 4)]" "[]" "Fin 30"]
    Cumulative_running_sum [of "[Fin (- 1), NaN, Fin 2]" "[]" "Fin 30"]
  by (simp add: finite_or_NaN_def Cumulative_def nondecreasing_def Let_def)

text \<open>
  C3, as the spec has it, fails: the input \<open>[-1, 2]\<close> has the nondecreasing output
  \<open>[-1, 1]\<close> although its first value is negative.
\<close>

theorem Cumulative_nondecreasing_counterexample:
  "Cumulative [Fin (- 1), Fin 2] [] (Fin 30) = Inr [Fin (- 1), Fin 1]
   \<and> nondecreasing [Fin (- 1), Fin 1]
   \<and> \<not> fle (Fin 0) ([Fin (- 1), Fin 2] ! 0)"
  by (simp add: Cumulative_def nondecreasing_def Let_def)

lemma ApplyTransform_loop_Inr:
  "ApplyTransform_loop ss t ps sc = Inr rs \<Longrightarrow>
   list_all2 (\<lambda>s r. transformTimeseries s t ps sc = Inr r) ss rs"
  by (induction ss arbitrary: rs) (auto split: sum.splits)

lemma transformTimeseries_Inr:
  "transformTimeseries s t ps sc = Inr r \<Longrightarrow>
   TagSet r = TagSet s \<and> t (Values s) ps sc = Inr (Values r)"
  by (auto simp: transformTimeseries_def split: sum.splits)

text \<open>
  C9. A successful \<open>transformTimeseries\<close> returns the transform's values under the
  input series' tag set. A successful \<open>ApplyTransform\<close> returns a list with the
  input's timerange and name and as many series as the input; the series at each
  position carries the tag set of the input series at that position, and its values
  are the transform's result on that series with scale \<open>resolution / 1000\<close>.
\<close>

theorem transform_frame:
  "(transformTimeseries series t ps sc = Inr r \<longrightarrow>
      TagSet r = TagSet series \<and> t (Values series) ps sc = Inr (Values r))
   \<and> (ApplyTransform list t ps = Inr res \<longrightarrow>
        Timerange res = Timerange list \<and> Name res = Name list
      \<and> length (Series res) = length (Series list)
      \<and> (\<forall>i < length (Series list).
            TagSet (Series res ! i) = TagSet (Series list ! i)
          \<and> t (Values (Series list ! i)) ps
               (fdiv (Fin (of_int (Resolution (Timerange list)))) (Fin 1000))
              = Inr (Values (Series res ! i))))"
proof -
  have many: "Timerange res = Timerange list \<and> Name res = Name list
      \<and> length (Series res) = length (Series list)
      \<and> (\<forall>i < length (Series list).
            TagSet (Series res ! i) = TagSet (Series list ! i)
          \<and> t (Values (Series list ! i)) ps
               (fdiv (Fin (of_int (Resolution (Timerange list)))) (Fin 1000))
              = Inr (Values (Series res ! i)))"
    if ok: "ApplyTransform list t ps = Inr res"
  proof -
    let ?sc = "fdiv (Fin (of_int (Resolution (Timerange list)))) (Fin 1000)"
    from ok obtain rs where rs: "ApplyTransform_loop (Series list) t ps ?sc = Inr rs"
      and res: "res = \<lparr>Series = rs, Timerange = Timerange list, Name = Name list\<rparr>"
      by (auto simp: ApplyTransform_def split: sum.splits)
    from ApplyTransform_loop_Inr [OF rs]
    have "length rs = length (Series list)"
      and "\<forall>i < length (Series list).
             transformTimeseries (Series list ! i) t ps ?sc = Inr (rs ! i)"
      by (auto simp: list_all2_conv_all_nth)
    with res transformTimeseries_Inr show ?thesis by auto
  qed
  show ?thesis using transformTimeseries_Inr [of series t ps sc r] many by blast
qed

theorem transform_frame_witness:
  "transformTimeseries \<lparr>Values = [Fin 0, Fin 1, Fin 2], TagSet = [''series'' \<mapsto> ''A'']\<rparr>
       Cumulative [] (Fin 30)
     = Inr \<lparr>Values = [Fin 0, Fin 1, Fin 3], TagSet = [''series'' \<mapsto> ''A'']\<rparr>
   \<and> ApplyTransform
       \<lparr>Series = [\<lparr>Values = [Fin 0, Fin 1, Fin 2], TagSet = [''series'' \<mapsto> ''A'']\<rparr>,
                  \<lparr>Values = [Fin 2, NaN, Fin 1], TagSet = [''series'' \<mapsto> ''B'']\<rparr>],
        Timerange = \<lparr>start_ms = 0, end_ms = 60000, resolution_ms = 30000\<rparr>,
        Name = ''test''\<rparr>
       Cumulative []
     = Inr \<lparr>Series = [\<lparr>Values = [Fin 0, Fin 1, Fin 3], TagSet = [''series'' \<mapsto> ''A'']\<rparr>,
                       \<lparr>Values = [Fin 2, Fin 2, Fin 3], TagSet = [''series'' \<mapsto> ''B'']\<rparr>],
             Timerange = \<lparr>start_ms = 0, end_ms = 60000, resolution_ms = 30000\<rparr>,
             Name = ''test''\<rparr>
   \<and> (1 :: nat) < length [\<lparr>Values = [Fin 0, Fin 1, Fin 2], TagSet = [''series'' \<mapsto> ''A'']\<rparr>,
                  \<lparr>Values = [Fin 2, NaN, Fin 1], TagSet = [''series'' \<mapsto> ''B'']\<rparr>]"
  using transform_frame
    [of "\<lparr>Values = [Fin 0, Fin 1, Fin 2], TagSet = [''series'' \<mapsto> ''A'']\<rparr>"
        Cumulative "[]" "Fin 30"
        "\<lparr>Values = [Fin 0, Fin 1, Fin 3], TagSet = [''series'' \<mapsto> ''A'']\<rparr>"
        "\<lparr>Series = [\<lparr>Values = [Fin 0, Fin 1, Fin 2], TagSet = [''series'' \<mapsto> ''A'']\<rparr>,
                  \<lparr>Values = [Fin 2, NaN, Fin 1], TagSet = [''series'' \<mapsto> ''B'']\<rparr>],
        Timerange = \<lparr>start_ms = 0, end_ms = 60000, resolution_ms = 30000\<rparr>,
        Name = ''test''\<rparr>"]
  by (simp add: ApplyTransform_def transformTimeseries_def Cumulative_def Let_def)


section \<open>Grouping\<close>

lemma set_first_seen [simp]: "set (first_seen xs) = set xs"
  by (induction xs) auto

lemma distinct_first_seen [simp]: "distinct (first_seen xs)"
  by (induction xs) (auto simp: distinct_removeAll)

lemma first_seen_snoc:
  "first_seen (xs @ [x]) = (if x \<in> set xs then first_seen xs else first_seen xs @ [x])"
  by (induction xs) auto

lemma newTags_loop_eq:
  "newTags_loop m ts tags = (\<lambda>k. if k \<in> set tags then Some (lookup ts k) else m k)"
  by (induction tags arbitrary: m) (auto simp: fun_eq_iff)

lemma newTags_project: "newTags_loop Map.empty ts tags = project tags ts"
  by (simp add: newTags_loop_eq project_def)

lemma groupAccepts_iff:
  "groupAccepts left right tags \<longleftrightarrow> (\<forall>t \<in> set tags. lookup left t = lookup right t)"
  by (induction tags) auto

lemma lookup_project: "t \<in> set tags \<Longrightarrow> lookup (project tags ts) t = lookup ts t"
  by (simp add: lookup_def project_def)

lemma project_eq_iff:
  "project tags a = project tags b \<longleftrightarrow> (\<forall>t \<in> set tags. lookup a t = lookup b t)"
  by (auto simp: project_def fun_eq_iff split: if_splits)

lemma groupAccepts_project:
  "groupAccepts (project tags a) (project tags b) tags \<longleftrightarrow> project tags a = project tags b"
  by (simp add: groupAccepts_iff lookup_project project_eq_iff)

lemma addToGroup_find_map:
  assumes "distinct keys"
    and "\<And>t. t \<in> set keys \<Longrightarrow> GroupTagSet (mk t) = t"
    and "\<And>t. t \<in> set keys \<Longrightarrow> groupAccepts t (TagSet s) tags \<longleftrightarrow> t = TagSet s"
  shows "addToGroup_find (map mk keys) s tags =
     (if TagSet s \<in> set keys
      then Some (map (\<lambda>t. if t = TagSet s then (mk t)\<lparr>GroupList := GroupList (mk t) @ [s]\<rparr> else mk t) keys)
      else None)"
  using assms
proof (induction keys)
  case Nil
  then show ?case by simp
next
  case (Cons k keys)
  then show ?case by (auto simp: map_idI)
qed

lemma addToGroup_groups_of:
  "addToGroup (groups_of tags ss) s tags = groups_of tags (ss @ [s])"
proof -
  let ?p = "project tags (TagSet s)"
  let ?s' = "s\<lparr>TagSet := ?p\<rparr>"
  let ?keys = "first_seen (map (\<lambda>s. project tags (TagSet s)) ss)"
  let ?mk = "\<lambda>t. \<lparr>GroupList = filter (\<lambda>s. TagSet s = t) (map (retag tags) ss), GroupTagSet = t\<rparr>"
  have find: "addToGroup_find (map ?mk ?keys) ?s' tags =
     (if TagSet ?s' \<in> set ?keys
      then Some (map (\<lambda>t. if t = TagSet ?s' then (?mk t)\<lparr>GroupList := GroupList (?mk t) @ [?s']\<rparr> else ?mk t) ?keys)
      else None)"
    by (rule addToGroup_find_map) (auto simp: groupAccepts_project)
  have none: "filter (\<lambda>s. TagSet s = ?p) (map (retag tags) ss) = []"
    if "?p \<notin> set ?keys"
    using that by (force simp: filter_empty_conv retag_def image_iff)
  show ?thesis
    using none
    by (auto simp: addToGroup_def Let_def newTags_project groups_of_def find first_seen_snoc retag_def)
qed

lemma foldl_addToGroup:
  "foldl (\<lambda>result series. addToGroup result series tags) (groups_of tags pre) ss
     = groups_of tags (pre @ ss)"
  by (induction ss arbitrary: pre) (simp_all add: addToGroup_groups_of)

lemma groupBy_groups_of: "groupBy list tags = groups_of tags (Series list)"
  using foldl_addToGroup [of tags "[]" "Series list"]
  by (simp add: groupBy_def groups_of_def)

lemma groupBy_members:
  "g \<in> set (groupBy list tags) \<Longrightarrow>
   GroupList g = filter (\<lambda>m. TagSet m = GroupTagSet g) (map (retag tags) (Series list))
   \<and> GroupTagSet g \<in> (\<lambda>s. project tags (TagSet s)) ` set (Series list)"
  by (auto simp: groupBy_groups_of groups_of_def)

lemma groupBy_tags:
  "map GroupTagSet (groupBy list tags)
     = first_seen (map (\<lambda>s. project tags (TagSet s)) (Series list))"
  by (simp add: groupBy_groups_of groups_of_def comp_def)

lemma groupBy_distinct: "distinct (map GroupTagSet (groupBy list tags))"
  by (simp add: groupBy_tags)

lemma TagSet_retag [simp]: "TagSet (retag tags s) = project tags (TagSet s)"
  by (simp add: retag_def)

lemma Values_retag [simp]: "Values (retag tags s) = Values s"
  by (simp add: retag_def)

lemma groupBy_nonempty_lemma:
  "g \<in> set (groupBy list tags) \<Longrightarrow> GroupList g \<noteq> []"
  using groupBy_members [of g list tags]
  by (auto simp: filter_empty_conv)

lemma groupBy_member_of:
  "g \<in> set (groupBy list tags) \<Longrightarrow> m \<in> set (GroupList g) \<Longrightarrow>
   \<exists>s \<in> set (Series list). m = retag tags s"
  using groupBy_members [of g list tags] by auto

lemma groupBy_has_group:
  "s \<in> set (Series list) \<Longrightarrow>
   \<exists>g \<in> set (groupBy list tags). GroupTagSet g = project tags (TagSet s)"
proof -
  assume "s \<in> set (Series list)"
  then have "project tags (TagSet s) \<in> set (map GroupTagSet (groupBy list tags))"
    by (simp add: groupBy_tags)
  then show ?thesis by auto
qed

lemma groupBy_in_group_iff:
  assumes "g \<in> set (groupBy list tags)" and "s \<in> set (Series list)"
  shows "retag tags s \<in> set (GroupList g) \<longleftrightarrow> GroupTagSet g = project tags (TagSet s)"
  using assms groupBy_members [of g list tags] by auto

lemma groupBy_same_tags:
  assumes "g \<in> set (groupBy list tags)" and "h \<in> set (groupBy list tags)"
    and "GroupTagSet g = GroupTagSet h"
  shows "g = h"
  using assms groupBy_distinct [of list tags]
  by (metis distinct_map inj_on_def)

lemma mset_concat_filter:
  "distinct keys \<Longrightarrow>
   mset (concat (map (\<lambda>t. filter (\<lambda>s. f s = t) rs) keys))
     = filter_mset (\<lambda>s. f s \<in> set keys) (mset rs)"
proof (induction keys)
  case Nil
  then show ?case by simp
next
  case (Cons k keys)
  then show ?case by (auto intro!: multiset_eqI)
qed

lemma groupBy_mset:
  "mset (concat (map GroupList (groupBy list tags))) = mset (map (retag tags) (Series list))"
proof -
  let ?keys = "first_seen (map (\<lambda>s. project tags (TagSet s)) (Series list))"
  let ?rs = "map (retag tags) (Series list)"
  have "mset (concat (map GroupList (groupBy list tags)))
      = mset (concat (map (\<lambda>t. filter (\<lambda>s. TagSet s = t) ?rs) ?keys))"
    by (simp add: groupBy_groups_of groups_of_def comp_def)
  also have "\<dots> = filter_mset (\<lambda>s. TagSet s \<in> set ?keys) (mset ?rs)"
    by (rule mset_concat_filter) simp
  also have "\<dots> = mset ?rs"
    by (rule filter_mset_cong [where g = "\<lambda>_. True", simplified, THEN trans]) auto
  finally show ?thesis .
qed

text \<open>
  C5. \<open>groupBy\<close> partitions the series of the list. \<open>addToGroup\<close> stores a series
  in its group under the projection of its tag set onto the tags, so the members of
  the groups are the input series retagged that way: taken together the groups hold
  exactly these, each as often as it occurs in the input, and every input series is
  in exactly one group. Two input series share a group if and only if their tag sets
  agree on every tag of the list (an absent tag reading as the empty string). A group
  holds, in input order, the series whose projected tag set is the group's tag set.
  The groups come in the order in which their tag sets first occur in the input.
\<close>

theorem groupBy_partition:
  "mset (concat (map GroupList (groupBy list tags))) = mset (map (retag tags) (Series list))
   \<and> (\<forall>s \<in> set (Series list).
         \<exists>!g. g \<in> set (groupBy list tags) \<and> retag tags s \<in> set (GroupList g))
   \<and> (\<forall>s1 \<in> set (Series list). \<forall>s2 \<in> set (Series list).
         (\<exists>g \<in> set (groupBy list tags).
             retag tags s1 \<in> set (GroupList g) \<and> retag tags s2 \<in> set (GroupList g))
         \<longleftrightarrow> (\<forall>t \<in> set tags. lookup (TagSet s1) t = lookup (TagSet s2) t))
   \<and> (\<forall>g \<in> set (groupBy list tags).
         GroupList g = filter (\<lambda>m. TagSet m = GroupTagSet g) (map (retag tags) (Series list))
       \<and> (\<forall>s \<in> set (Series list).
             retag tags s \<in> set (GroupList g) \<longrightarrow> GroupTagSet g = project tags (TagSet s)))
   \<and> map GroupTagSet (groupBy list tags)
       = first_seen (map (\<lambda>s. project tags (TagSet s)) (Series list))"
proof (intro conjI ballI)
  show "mset (concat (map GroupList (groupBy list tags))) = mset (map (retag tags) (Series list))"
    by (rule groupBy_mset)
next
  fix s assume s: "s \<in> set (Series list)"
  from groupBy_has_group [OF s] obtain g where g: "g \<in> set (groupBy list tags)"
    and t: "GroupTagSet g = project tags (TagSet s)" by auto
  show "\<exists>!g. g \<in> set (groupBy list tags) \<and> retag tags s \<in> set (GroupList g)"
  proof (rule ex1I [of _ g])
    show "g \<in> set (groupBy list tags) \<and> retag tags s \<in> set (GroupList g)"
      using g t groupBy_in_group_iff [OF g s] by simp
  next
    fix h assume "h \<in> set (groupBy list tags) \<and> retag tags s \<in> set (GroupList h)"
    then show "h = g"
      using g t s groupBy_in_group_iff groupBy_same_tags by metis
  qed
next
  fix s1 s2 assume s1: "s1 \<in> set (Series list)" and s2: "s2 \<in> set (Series list)"
  show "(\<exists>g \<in> set (groupBy list tags).
             retag tags s1 \<in> set (GroupList g) \<and> retag tags s2 \<in> set (GroupList g))
         \<longleftrightarrow> (\<forall>t \<in> set tags. lookup (TagSet s1) t = lookup (TagSet s2) t)"
    using groupBy_has_group [OF s1] groupBy_in_group_iff s1 s2 project_eq_iff
    by metis
next
  fix g assume g: "g \<in> set (groupBy list tags)"
  show "GroupList g = filter (\<lambda>m. TagSet m = GroupTagSet g) (map (retag tags) (Series list))"
    using groupBy_members [OF g] by simp
next
  fix g s assume g: "g \<in> set (groupBy list tags)" and s: "s \<in> set (Series list)"
  show "retag tags s \<in> set (GroupList g) \<longrightarrow> GroupTagSet g = project tags (TagSet s)"
    using groupBy_in_group_iff [OF g s] by simp
next
  show "map GroupTagSet (groupBy list tags)
       = first_seen (map (\<lambda>s. project tags (TagSet s)) (Series list))"
    by (rule groupBy_tags)
qed

theorem groupBy_partition_witness:
  "length (Series listA) = 5
   \<and> map (\<lambda>g. map Values (GroupList g)) (groupBy listA [''dc''])
       = [[[Fin 0, Fin 0, Fin 0]],
          [[Fin 1, Fin 1, Fin 1], [Fin 3, Fin 3, Fin 3]],
          [[Fin 2, Fin 2, Fin 2], [Fin 4, Fin 4, Fin 4]]]
   \<and> map (\<lambda>g. lookup (GroupTagSet g) ''dc'') (groupBy listA [''dc'']) = [''A'', ''B'', ''C'']
   \<and> map (\<lambda>s. lookup (TagSet s) ''dc'') (Series listA) = [''A'', ''B'', ''C'', ''B'', ''C'']"
  using groupBy_partition [of listA "[''dc'']"]
  by (simp add: listA_def groupBy_def addToGroup_def Let_def lookup_def)


section \<open>Aggregators\<close>

lemma filterNaN_filter: "filterNaN array = filter (\<lambda>v. \<not> IsNaN v) array"
  by (induction array) auto

lemma math_Min_props:
  assumes "\<not> IsNaN x" and "\<not> IsNaN y"
  shows "\<not> IsNaN (math_Min x y)" and "math_Min x y = x \<or> math_Min x y = y"
    and "fle (math_Min x y) x" and "fle (math_Min x y) y"
  using assms by (cases x; cases y; auto simp: math_Min_def)+

lemma math_Max_props:
  assumes "\<not> IsNaN x" and "\<not> IsNaN y"
  shows "\<not> IsNaN (math_Max x y)" and "math_Max x y = x \<or> math_Max x y = y"
    and "fle x (math_Max x y)" and "fle y (math_Max x y)"
  using assms by (cases x; cases y; auto simp: math_Max_def)+

lemma foldl_math_Min:
  assumes "\<not> IsNaN x" and "\<forall>y \<in> set ys. \<not> IsNaN y"
  shows "\<not> IsNaN (foldl math_Min x ys) \<and> foldl math_Min x ys \<in> insert x (set ys)
       \<and> fle (foldl math_Min x ys) x \<and> (\<forall>y \<in> set ys. fle (foldl math_Min x ys) y)"
  using assms
proof (induction ys arbitrary: x)
  case Nil
  then show ?case by (cases x) auto
next
  case (Cons y ys)
  have nn: "\<not> IsNaN (math_Min x y)" using Cons.prems by (simp add: math_Min_props)
  from Cons.IH [OF nn] Cons.prems
  have ih: "\<not> IsNaN (foldl math_Min (math_Min x y) ys)"
    "foldl math_Min (math_Min x y) ys \<in> insert (math_Min x y) (set ys)"
    "fle (foldl math_Min (math_Min x y) ys) (math_Min x y)"
    "\<forall>z \<in> set ys. fle (foldl math_Min (math_Min x y) ys) z"
    by simp_all
  have "fle (foldl math_Min (math_Min x y) ys) x" "fle (foldl math_Min (math_Min x y) ys) y"
    using ih(3) math_Min_props(3,4) [of x y] Cons.prems by (auto intro: fle_trans)
  moreover have "foldl math_Min (math_Min x y) ys \<in> insert x (set (y # ys))"
    using ih(2) math_Min_props(2) [of x y] Cons.prems by auto
  ultimately show ?case using ih by simp
qed

lemma foldl_math_Max:
  assumes "\<not> IsNaN x" and "\<forall>y \<in> set ys. \<not> IsNaN y"
  shows "\<not> IsNaN (foldl math_Max x ys) \<and> foldl math_Max x ys \<in> insert x (set ys)
       \<and> fle x (foldl math_Max x ys) \<and> (\<forall>y \<in> set ys. fle y (foldl math_Max x ys))"
  using assms
proof (induction ys arbitrary: x)
  case Nil
  then show ?case by (cases x) auto
next
  case (Cons y ys)
  have nn: "\<not> IsNaN (math_Max x y)" using Cons.prems by (simp add: math_Max_props)
  from Cons.IH [OF nn] Cons.prems
  have ih: "\<not> IsNaN (foldl math_Max (math_Max x y) ys)"
    "foldl math_Max (math_Max x y) ys \<in> insert (math_Max x y) (set ys)"
    "fle (math_Max x y) (foldl math_Max (math_Max x y) ys)"
    "\<forall>z \<in> set ys. fle z (foldl math_Max (math_Max x y) ys)"
    by simp_all
  have "fle x (foldl math_Max (math_Max x y) ys)" "fle y (foldl math_Max (math_Max x y) ys)"
    using ih(3) math_Max_props(3,4) [of x y] Cons.prems by (auto intro: fle_trans)
  moreover have "foldl math_Max (math_Max x y) ys \<in> insert x (set (y # ys))"
    using ih(2) math_Max_props(2) [of x y] Cons.prems by auto
  ultimately show ?case using ih by simp
qed

lemma aggregate_Min_props:
  assumes "filterNaN array \<noteq> []"
  shows "aggregate_Min array \<in> set (filterNaN array)
       \<and> (\<forall>v \<in> set (filterNaN array). fle (aggregate_Min array) v)"
proof -
  from assms obtain x xs where xs: "filterNaN array = x # xs" by (cases "filterNaN array") auto
  have nn: "\<forall>y \<in> set (x # xs). \<not> IsNaN y"
    unfolding xs [symmetric] by (simp add: filterNaN_filter)
  then have "\<not> IsNaN x" by simp
  from foldl_math_Min [OF this nn] show ?thesis
    by (simp add: aggregate_Min_def xs Let_def)
qed

lemma aggregate_Max_props:
  assumes "filterNaN array \<noteq> []"
  shows "aggregate_Max array \<in> set (filterNaN array)
       \<and> (\<forall>v \<in> set (filterNaN array). fle v (aggregate_Max array))"
proof -
  from assms obtain x xs where xs: "filterNaN array = x # xs" by (cases "filterNaN array") auto
  have nn: "\<forall>y \<in> set (x # xs). \<not> IsNaN y"
    unfolding xs [symmetric] by (simp add: filterNaN_filter)
  then have "\<not> IsNaN x" by simp
  from foldl_math_Max [OF this nn] show ?thesis
    by (simp add: aggregate_Max_def xs Let_def)
qed

text \<open>
  C4, as the code has it. Each aggregator works on its input with the NaN entries
  dropped. When nothing remains, \<open>Sum\<close> is 0 (so an all-NaN input sums to 0) and
  \<open>Mean\<close>, \<open>Min\<close> and \<open>Max\<close> are NaN. Otherwise \<open>Min\<close> and \<open>Max\<close> are the least
  and the greatest of the remaining entries, \<open>Sum\<close> is the float64 sum of the
  remaining entries, added from left to right starting at 0, and \<open>Mean\<close> is that sum
  divided by the number of remaining entries.
\<close>

theorem reducers_filter_then_reduce:
  "filterNaN array = filter (\<lambda>v. \<not> IsNaN v) array
   \<and> Sum array = foldl fadd (Fin 0) (filter (\<lambda>v. \<not> IsNaN v) array)
   \<and> (filterNaN array = [] \<longrightarrow>
        Sum array = Fin 0 \<and> Mean array = NaN
      \<and> aggregate_Min array = NaN \<and> aggregate_Max array = NaN)
   \<and> (list_all IsNaN array \<longrightarrow> Sum array = Fin 0)
   \<and> (filterNaN array \<noteq> [] \<longrightarrow>
        Mean array = fdiv (Sum array) (Fin (of_nat (length (filterNaN array))))
      \<and> aggregate_Min array \<in> set (filterNaN array)
      \<and> (\<forall>v \<in> set (filterNaN array). fle (aggregate_Min array) v)
      \<and> aggregate_Max array \<in> set (filterNaN array)
      \<and> (\<forall>v \<in> set (filterNaN array). fle v (aggregate_Max array)))"
proof (intro conjI impI)
  show "filterNaN array = filter (\<lambda>v. \<not> IsNaN v) array" by (rule filterNaN_filter)
next
  show "Sum array = foldl fadd (Fin 0) (filter (\<lambda>v. \<not> IsNaN v) array)"
    by (simp add: Sum_def filterNaN_filter)
next
  assume e: "filterNaN array = []"
  show "Sum array = Fin 0" "Mean array = NaN" "aggregate_Min array = NaN"
    "aggregate_Max array = NaN"
    by (simp_all add: Sum_def Mean_def aggregate_Min_def aggregate_Max_def e)
next
  assume "list_all IsNaN array"
  then have "filterNaN array = []"
    by (simp add: filterNaN_filter filter_empty_conv list_all_iff)
  then show "Sum array = Fin 0" by (simp add: Sum_def)
next
  assume ne: "filterNaN array \<noteq> []"
  then show "Mean array = fdiv (Sum array) (Fin (of_nat (length (filterNaN array))))"
    by (simp add: Mean_def Sum_def Let_def)
  show "aggregate_Min array \<in> set (filterNaN array)"
    "\<forall>v \<in> set (filterNaN array). fle (aggregate_Min array) v"
    "aggregate_Max array \<in> set (filterNaN array)"
    "\<forall>v \<in> set (filterNaN array). fle v (aggregate_Max array)"
    using aggregate_Min_props [OF ne] aggregate_Max_props [OF ne] by simp_all
qed

theorem reducers_filter_then_reduce_witness:
  "filterNaN [Fin 4, NaN, Fin (- 1), Fin 0] = [Fin 4, Fin (- 1), Fin 0]
   \<and> Sum [Fin 4, NaN, Fin (- 1), Fin 0] = Fin 3
   \<and> Mean [Fin 4, NaN, Fin (- 1), Fin 0] = Fin 1
   \<and> aggregate_Min [Fin 4, NaN, Fin (- 1), Fin 0] = Fin (- 1)
   \<and> aggregate_Max [Fin 4, NaN, Fin (- 1), Fin 0] = Fin 4
   \<and> filterNaN [NaN, NaN] = [] \<and> list_all IsNaN [NaN, NaN]
   \<and> Sum [NaN, NaN] = Fin 0 \<and> Mean [NaN, NaN] = NaN
   \<and> aggregate_Min [NaN, NaN] = NaN \<and> aggregate_Max [NaN, NaN] = NaN"
  using reducers_filter_then_reduce [of "[Fin 4, NaN, Fin (- 1), Fin 0]"]
    reducers_filter_then_reduce [of "[NaN, NaN]"]
  by (simp add: Sum_def Mean_def aggregate_Min_def aggregate_Max_def
        math_Min_def math_Max_def)

text \<open>
  C4, as the spec has it, fails: a float64 sum is not always the mathematical sum of
  its terms. With the entries \<open>+Inf\<close> and \<open>-Inf\<close> nothing is dropped and the list that
  remains is not empty, yet \<open>Sum\<close> and \<open>Mean\<close> are NaN, which is the sum and the
  mean of no numbers, while \<open>Min\<close> and \<open>Max\<close> are the two entries.
\<close>

theorem reducers_sum_counterexample:
  "filterNaN [PInf, NInf] = [PInf, NInf]
   \<and> Sum [PInf, NInf] = NaN
   \<and> Mean [PInf, NInf] = NaN
   \<and> aggregate_Min [PInf, NInf] = NInf
   \<and> aggregate_Max [PInf, NInf] = PInf"
  by (simp add: Sum_def Mean_def aggregate_Min_def aggregate_Max_def math_Min_def math_Max_def)


section \<open>Aggregation\<close>

lemma timeSlice_Inl: "timeSlice l i = Inl e \<Longrightarrow> e = PanicIndexOutOfRange"
  by (induction l arbitrary: e) (auto split: if_splits sum.splits)

lemma applyAggregation_loop_Inl:
  "applyAggregation_loop l agg is = Inl e \<Longrightarrow> e = PanicIndexOutOfRange"
  by (induction "is" arbitrary: e) (auto split: sum.splits dest: timeSlice_Inl)

lemma applyAggregation_empty_panic:
  "applyAggregation g agg = Inl PanicEmptyGroup \<Longrightarrow> GroupList g = []"
  by (auto simp: applyAggregation_def Let_def split: if_splits sum.splits
           dest: applyAggregation_loop_Inl)

lemma AggregateBy_loop_Inl:
  "AggregateBy_loop gs agg = Inl e \<Longrightarrow> \<exists>g \<in> set gs. applyAggregation g agg = Inl e"
  by (induction gs) (auto split: sum.splits)

text \<open>
  C10. Every group that \<open>groupBy\<close> produces holds at least one series, so
  \<open>applyAggregation\<close> does not reach its empty-group panic on any of them, and no
  call of \<open>AggregateBy\<close> ends in that panic.
\<close>

theorem groupBy_groups_nonempty:
  "(\<forall>g \<in> set (groupBy list tags). GroupList g \<noteq> [])
   \<and> (\<forall>g \<in> set (groupBy list tags). applyAggregation g aggregator \<noteq> Inl PanicEmptyGroup)
   \<and> AggregateBy list aggregator tags \<noteq> Inl PanicEmptyGroup"
proof (intro conjI ballI)
  fix g assume "g \<in> set (groupBy list tags)"
  then show "GroupList g \<noteq> []" by (rule groupBy_nonempty_lemma)
next
  fix g assume "g \<in> set (groupBy list tags)"
  then show "applyAggregation g aggregator \<noteq> Inl PanicEmptyGroup"
    using applyAggregation_empty_panic groupBy_nonempty_lemma by blast
next
  show "AggregateBy list aggregator tags \<noteq> Inl PanicEmptyGroup"
  proof
    assume "AggregateBy list aggregator tags = Inl PanicEmptyGroup"
    then have "AggregateBy_loop (groupBy list tags) aggregator = Inl PanicEmptyGroup"
      by (auto simp: AggregateBy_def split: sum.splits)
    then show False
      using AggregateBy_loop_Inl applyAggregation_empty_panic groupBy_nonempty_lemma by blast
  qed
qed

theorem groupBy_groups_nonempty_witness:
  "map (\<lambda>g. length (GroupList g)) (groupBy listA [''dc'']) = [1, 2, 2]
   \<and> map (\<lambda>g. length (GroupList g)) (groupBy listA []) = [5]
   \<and> AggregateBy listA Sum [''dc''] \<noteq> Inl PanicEmptyGroup"
  using groupBy_groups_nonempty [of listA "[''dc'']" Sum]
  by (simp add: listA_def groupBy_def addToGroup_def Let_def lookup_def)

lemma timeSlice_Inr:
  "\<forall>m \<in> set l. i < length (Values m) \<Longrightarrow> timeSlice l i = Inr (map (\<lambda>m. Values m ! i) l)"
  by (induction l) auto

lemma applyAggregation_loop_Inr:
  "\<forall>i \<in> set is. \<forall>m \<in> set l. i < length (Values m) \<Longrightarrow>
   applyAggregation_loop l agg is = Inr (map (\<lambda>i. agg (map (\<lambda>m. Values m ! i) l)) is)"
  by (induction "is") (auto simp: timeSlice_Inr)

lemma applyAggregation_Inr:
  assumes "GroupList g \<noteq> []" and "\<forall>m \<in> set (GroupList g). length (Values m) = n"
  shows "applyAggregation g agg =
     Inr \<lparr>Values = map (\<lambda>i. agg (map (\<lambda>m. Values m ! i) (GroupList g))) [0..<n],
          TagSet = GroupTagSet g\<rparr>"
proof -
  from assms have "length (Values (hd (GroupList g))) = n" by simp
  moreover have "applyAggregation_loop (GroupList g) agg [0..<n]
     = Inr (map (\<lambda>i. agg (map (\<lambda>m. Values m ! i) (GroupList g))) [0..<n])"
    by (rule applyAggregation_loop_Inr) (use assms in auto)
  ultimately show ?thesis using assms(1)
    by (simp add: applyAggregation_def Let_def)
qed

lemma AggregateBy_loop_Inr:
  "\<forall>g \<in> set gs. applyAggregation g agg = Inr (f g) \<Longrightarrow>
   AggregateBy_loop gs agg = Inr (map f gs)"
  by (induction gs) auto

lemma AggregateBy_Inr:
  assumes "\<forall>s \<in> set (Series list). length (Values s) = n"
  shows "AggregateBy list agg tags =
     Inr \<lparr>Series = map (\<lambda>g. \<lparr>Values = map (\<lambda>i. agg (map (\<lambda>m. Values m ! i) (GroupList g))) [0..<n],
                              TagSet = GroupTagSet g\<rparr>) (groupBy list tags),
          Timerange = Timerange list, Name = Name list\<rparr>"
proof -
  have "applyAggregation g agg =
     Inr \<lparr>Values = map (\<lambda>i. agg (map (\<lambda>m. Values m ! i) (GroupList g))) [0..<n],
          TagSet = GroupTagSet g\<rparr>" if g: "g \<in> set (groupBy list tags)" for g
  proof (rule applyAggregation_Inr)
    show "GroupList g \<noteq> []" using g by (rule groupBy_nonempty_lemma)
    show "\<forall>m \<in> set (GroupList g). length (Values m) = n"
      using groupBy_member_of [OF g] assms by fastforce
  qed
  then have "AggregateBy_loop (groupBy list tags) agg
     = Inr (map (\<lambda>g. \<lparr>Values = map (\<lambda>i. agg (map (\<lambda>m. Values m ! i) (GroupList g))) [0..<n],
                              TagSet = GroupTagSet g\<rparr>) (groupBy list tags))"
    by (intro AggregateBy_loop_Inr ballI)
  then show ?thesis
    by (simp add: AggregateBy_def)
qed

text \<open>
  C6. For a series list whose members all have \<open>n\<close> values, \<open>AggregateBy\<close> returns
  (without panic) a list with the input's timerange and name and one series per group
  of \<open>groupBy\<close>, in the groups' order. The series of a group carries the group's tag
  set, and its value at each slot \<open>i < n\<close> is the aggregator applied to the list of
  the members' values at slot \<open>i\<close>, in member order. For the four identically tagged
  series of \<open>Test_applyAggregation\<close> the result is \<open>[3, 2, 8, 11]\<close> under \<open>Sum\<close>,
  \<open>[0.75, 0.5, 2, 2.75]\<close> under \<open>Mean\<close>, \<open>[-1, -1, 0, 2]\<close> under \<open>Min\<close> and
  \<open>[4, 2, 4, 4]\<close> under \<open>Max\<close>.
\<close>

theorem AggregateBy_spec:
  assumes "\<forall>s \<in> set (Series list). length (Values s) = n"
  shows "(\<exists>res. AggregateBy list aggregator tags = Inr res
            \<and> Timerange res = Timerange list \<and> Name res = Name list
            \<and> length (Series res) = length (groupBy list tags)
            \<and> (\<forall>k < length (groupBy list tags).
                  TagSet (Series res ! k) = GroupTagSet (groupBy list tags ! k)
                \<and> length (Values (Series res ! k)) = n
                \<and> (\<forall>i < n. Values (Series res ! k) ! i
                       = aggregator (map (\<lambda>member. Values member ! i)
                                         (GroupList (groupBy list tags ! k))))))
       \<and> AggregateBy testGroup Sum [''env'', ''dc'']
           = Inr \<lparr>Series = [\<lparr>Values = [Fin 3, Fin 2, Fin 8, Fin 11],
                             TagSet = [''env'' \<mapsto> ''production'', ''dc'' \<mapsto> ''A'']\<rparr>],
                  Timerange = Timerange testGroup, Name = Name testGroup\<rparr>
       \<and> AggregateBy testGroup Mean [''env'', ''dc'']
           = Inr \<lparr>Series = [\<lparr>Values = [Fin (3 / 4), Fin (1 / 2), Fin 2, Fin (11 / 4)],
                             TagSet = [''env'' \<mapsto> ''production'', ''dc'' \<mapsto> ''A'']\<rparr>],
                  Timerange = Timerange testGroup, Name = Name testGroup\<rparr>
       \<and> AggregateBy testGroup aggregate_Min [''env'', ''dc'']
           = Inr \<lparr>Series = [\<lparr>Values = [Fin (- 1), Fin (- 1), Fin 0, Fin 2],
                             TagSet = [''env'' \<mapsto> ''production'', ''dc'' \<mapsto> ''A'']\<rparr>],
                  Timerange = Timerange testGroup, Name = Name testGroup\<rparr>
       \<and> AggregateBy testGroup aggregate_Max [''env'', ''dc'']
           = Inr \<lparr>Series = [\<lparr>Values = [Fin 4, Fin 2, Fin 4, Fin 4],
                             TagSet = [''env'' \<mapsto> ''production'', ''dc'' \<mapsto> ''A'']\<rparr>],
                  Timerange = Timerange testGroup, Name = Name testGroup\<rparr>"
proof (intro conjI)
  show "\<exists>res. AggregateBy list aggregator tags = Inr res
            \<and> Timerange res = Timerange list \<and> Name res = Name list
            \<and> length (Series res) = length (groupBy list tags)
            \<and> (\<forall>k < length (groupBy list tags).
                  TagSet (Series res ! k) = GroupTagSet (groupBy list tags ! k)
                \<and> length (Values (Series res ! k)) = n
                \<and> (\<forall>i < n. Values (Series res ! k) ! i
                       = aggregator (map (\<lambda>member. Values member ! i)
                                         (GroupList (groupBy list tags ! k)))))"
    by (simp add: AggregateBy_Inr [OF assms])
next
  have g: "groupBy testGroup [''env'', ''dc'']
      = [\<lparr>GroupList = map (retag [''env'', ''dc'']) (Series testGroup),
          GroupTagSet = [''env'' \<mapsto> ''production'', ''dc'' \<mapsto> ''A'']\<rparr>]"
    by (simp add: testGroup_def groupBy_def addToGroup_def Let_def lookup_def retag_def
          project_def fun_eq_iff)
  have n: "\<forall>s \<in> set (Series testGroup). length (Values s) = 4"
    by (simp add: testGroup_def)
  have u: "[0..<4] = [0, 1, 2, 3]"
    by code_simp
  show "AggregateBy testGroup Sum [''env'', ''dc'']
           = Inr \<lparr>Series = [\<lparr>Values = [Fin 3, Fin 2, Fin 8, Fin 11],
                             TagSet = [''env'' \<mapsto> ''production'', ''dc'' \<mapsto> ''A'']\<rparr>],
                  Timerange = Timerange testGroup, Name = Name testGroup\<rparr>"
    by (simp add: AggregateBy_Inr [OF n] g u) (simp add: testGroup_def Sum_def)
  show "AggregateBy testGroup Mean [''env'', ''dc'']
           = Inr \<lparr>Series = [\<lparr>Values = [Fin (3 / 4), Fin (1 / 2), Fin 2, Fin (11 / 4)],
                             TagSet = [''env'' \<mapsto> ''production'', ''dc'' \<mapsto> ''A'']\<rparr>],
                  Timerange = Timerange testGroup, Name = Name testGroup\<rparr>"
    by (simp add: AggregateBy_Inr [OF n] g u) (simp add: testGroup_def Mean_def)
  show "AggregateBy testGroup aggregate_Min [''env'', ''dc'']
           = Inr \<lparr>Series = [\<lparr>Values = [Fin (- 1), Fin (- 1), Fin 0, Fin 2],
                             TagSet = [''env'' \<mapsto> ''production'', ''dc'' \<mapsto> ''A'']\<rparr>],
                  Timerange = Timerange testGroup, Name = Name testGroup\<rparr>"
    by (simp add: AggregateBy_Inr [OF n] g u) (simp add: testGroup_def aggregate_Min_def math_Min_def)
  show "AggregateBy testGroup aggregate_Max [''env'', ''dc'']
           = Inr \<lparr>Series = [\<lparr>Values = [Fin 4, Fin 2, Fin 4, Fin 4],
                             TagSet = [''env'' \<mapsto> ''production'', ''dc'' \<mapsto> ''A'']\<rparr>],
                  Timerange = Timerange testGroup, Name = Name testGroup\<rparr>"
    by (simp add: AggregateBy_Inr [OF n] g u) (simp add: testGroup_def aggregate_Max_def math_Max_def)
qed

theorem AggregateBy_spec_witness:
  "list_all (\<lambda>s. length (Values s) = 3) (Series listA)
   \<and> AggregateBy listA Sum [''dc'']
       = Inr \<lparr>Series = [\<lparr>Values = [Fin 0, Fin 0, Fin 0], TagSet = [''dc'' \<mapsto> ''A'']\<rparr>,
                         \<lparr>Values = [Fin 4, Fin 4, Fin 4], TagSet = [''dc'' \<mapsto> ''B'']\<rparr>,
                         \<lparr>Values = [Fin 6, Fin 6, Fin 6], TagSet = [''dc'' \<mapsto> ''C'']\<rparr>],
              Timerange = Timerange listA, Name = Name listA\<rparr>"
proof -
  have n: "\<forall>s \<in> set (Series listA). length (Values s) = 3"
    by (simp add: listA_def)
  have "AggregateBy listA Sum [''dc'']
       = Inr \<lparr>Series = [\<lparr>Values = [Fin 0, Fin 0, Fin 0], TagSet = [''dc'' \<mapsto> ''A'']\<rparr>,
                         \<lparr>Values = [Fin 4, Fin 4, Fin 4], TagSet = [''dc'' \<mapsto> ''B'']\<rparr>,
                         \<lparr>Values = [Fin 6, Fin 6, Fin 6], TagSet = [''dc'' \<mapsto> ''C'']\<rparr>],
              Timerange = Timerange listA, Name = Name listA\<rparr>"
    using AggregateBy_spec [OF n, of Sum "[''dc'']"]
    by (simp add: listA_def AggregateBy_def groupBy_def addToGroup_def Let_def lookup_def
          applyAggregation_def Sum_def
          upt_rec [of 0] upt_rec [of 1] upt_rec [of 2] upt_rec [of 3])
  then show ?thesis by (simp add: listA_def)
qed


section \<open>Bucketed fetch\<close>

text \<open>
  C2 asks for the slot \<open>floor((timestamp - start) / resolution)\<close>, with slots outside
  \<open>[0, slots)\<close> dropped, and the comment in \<open>addMetricPoint\<close> says that the index is
  floored. The division of the code truncates towards zero instead. For the timerange
  from 60000 to 120000 in steps of 30000 (three slots) and a single point at timestamp
  59999 with average 5, the floored slot is \<open>-1\<close> and the point would be dropped,
  leaving three NaN; the code computes index 0 and returns 5 in slot 0.
\<close>

theorem processResult_truncates:
  "processResult
      \<lparr>ResponseValues =
         [\<lparr>Points = 1, Timestamp = 59999, Average = Fin 5, Max_p = Fin 5, Min_p = Fin 5,
           Variance = Fin 0\<rparr>]\<rparr>
      \<lparr>start_ms = 60000, end_ms = 120000, resolution_ms = 30000\<rparr>
      (samplerMap SampleMean)
     = Inr [Fin 5, NaN, NaN]
   \<and> Slots \<lparr>start_ms = 60000, end_ms = 120000, resolution_ms = 30000\<rparr> = Inr 3
   \<and> (59999 - 60000 :: int) div 30000 = - 1
   \<and> (59999 - 60000 :: int) sdiv 30000 = 0"
  by (simp add: processResult_def bucketsFromMetricPoints_def Slots_def int64_div_def
        int64_def addMetricPoint_def Start_def End_def Resolution_def Let_def
        bucketSampler_mean_def signed_divide_int_def numeral_eq_Suc)


section \<open>Evaluation of a fetch expression\<close>

lemma applyPredicates_filter: "applyPredicates tagSets p = filter (Apply p) tagSets"
  by (induction tagSets) auto

text \<open>
  C8, as the code has it. \<open>Evaluate\<close> of a fetch expression first asks the API for
  the metric's tag sets; an error of the API is returned as it is, with the counter
  untouched and no multi-fetch issued. Otherwise it keeps the tag sets that pass the
  merge of the context predicate and the local predicate (each may be absent) and
  hands their number to the fetch-limit counter in one call. If the counter refuses,
  the result is the fetch-limit error and no multi-fetch is issued. If it admits
  them, exactly one multi-fetch is issued, for the metric with each surviving tag set
  in order; an error of the multi-fetch is returned as it is, and otherwise the value
  is the fetched series list under the name of the metric.
\<close>

theorem Evaluate_fetch_spec:
  "(\<forall>err. API_GetAllTags context (metricName expr) = Inl err \<longrightarrow>
      Evaluate expr context counter = (Inl err, counter, []))
   \<and> (\<forall>tagSets. API_GetAllTags context (metricName expr) = Inr tagSets \<longrightarrow>
        (let filtered = filter (merged_holds (ContextPredicate context) (predicate expr)) tagSets;
             admitted = FetchLimit_Consume context counter (int (length filtered));
             request = \<lparr>Metrics = map (\<lambda>ts. \<lparr>MetricKey = metricName expr, MetricTagSet = ts\<rparr>)
                                     filtered,
                        RequestSampleMethod = ContextSampleMethod context,
                        RequestTimerange = ContextTimerange context\<rparr>
         in (\<not> fst admitted \<longrightarrow>
               Evaluate expr context counter = (Inl FetchLimitExceeded, snd admitted, []))
          \<and> (fst admitted \<longrightarrow>
               (\<forall>err. MultiBackend_FetchMultipleSeries context request = Inl err \<longrightarrow>
                  Evaluate expr context counter = (Inl err, snd admitted, [request]))
             \<and> (\<forall>serieslist. MultiBackend_FetchMultipleSeries context request = Inr serieslist \<longrightarrow>
                  (\<exists>named. Evaluate expr context counter
                              = (Inr (SeriesListValue named), snd admitted, [request])
                         \<and> Name named = metricName expr
                         \<and> Series named = Series serieslist
                         \<and> Timerange named = Timerange serieslist)))))"
proof (intro conjI allI impI)
  fix err assume "API_GetAllTags context (metricName expr) = Inl err"
  then show "Evaluate expr context counter = (Inl err, counter, [])"
    by (simp add: Evaluate_def Let_def)
next
  fix tagSets assume tags: "API_GetAllTags context (metricName expr) = Inr tagSets"
  have f: "applyPredicates tagSets
         (case (ContextPredicate context, predicate expr) of
            (None, None) \<Rightarrow> TruePredicate
          | (None, Some p) \<Rightarrow> p
          | (Some c, None) \<Rightarrow> c
          | (Some c, Some p) \<Rightarrow> andPredicate [p, c])
       = filter (merged_holds (ContextPredicate context) (predicate expr)) tagSets"
    unfolding applyPredicates_filter
    by (rule filter_cong) (auto simp: merged_holds_def split: option.splits)
  show "let filtered = filter (merged_holds (ContextPredicate context) (predicate expr)) tagSets;
             admitted = FetchLimit_Consume context counter (int (length filtered));
             request = \<lparr>Metrics = map (\<lambda>ts. \<lparr>MetricKey = metricName expr, MetricTagSet = ts\<rparr>)
                                     filtered,
                        RequestSampleMethod = ContextSampleMethod context,
                        RequestTimerange = ContextTimerange context\<rparr>
         in (\<not> fst admitted \<longrightarrow>
               Evaluate expr context counter = (Inl FetchLimitExceeded, snd admitted, []))
          \<and> (fst admitted \<longrightarrow>
               (\<forall>err. MultiBackend_FetchMultipleSeries context request = Inl err \<longrightarrow>
                  Evaluate expr context counter = (Inl err, snd admitted, [request]))
             \<and> (\<forall>serieslist. MultiBackend_FetchMultipleSeries context request = Inr serieslist \<longrightarrow>
                  (\<exists>named. Evaluate expr context counter
                              = (Inr (SeriesListValue named), snd admitted, [request])
                         \<and> Name named = metricName expr
                         \<and> Series named = Series serieslist
                         \<and> Timerange named = Timerange serieslist)))"
    unfolding Evaluate_def Let_def tags sum.case f
    by (auto simp: case_prod_beta)
qed

theorem Evaluate_fetch_spec_witness:
  "API_GetAllTags (fetchContext 1000) (metricName fetchExpression) = Inr [[''host'' \<mapsto> ''a''], [''host'' \<mapsto> ''b'']]
   \<and> Evaluate fetchExpression (fetchContext 1000) 0
       = (Inr (SeriesListValue
                 \<lparr>Series = [\<lparr>Values = [], TagSet = [''host'' \<mapsto> ''a'']\<rparr>],
                  Timerange = \<lparr>start_ms = 0, end_ms = 30000, resolution_ms = 30000\<rparr>,
                  Name = ''cpu''\<rparr>),
          1,
          [\<lparr>Metrics = [\<lparr>MetricKey = ''cpu'', MetricTagSet = [''host'' \<mapsto> ''a'']\<rparr>],
            RequestSampleMethod = SampleMean,
            RequestTimerange = \<lparr>start_ms = 0, end_ms = 30000, resolution_ms = 30000\<rparr>\<rparr>])
   \<and> Evaluate fetchExpression (fetchContext 0) 0 = (Inl FetchLimitExceeded, 0, [])"
  using Evaluate_fetch_spec [of "fetchContext 1000" fetchExpression 0]
    Evaluate_fetch_spec [of "fetchContext 0" fetchExpression 0]
  by (simp add: fetchContext_def fetchExpression_def Evaluate_def Let_def lookup_def)

text \<open>
  C8, as the spec has it, fails where it says that the value is a series list whenever
  the counter does not overflow: with a limit of 1000 the counter admits the one
  surviving tag set, the multi-fetch is issued and fails, and \<open>Evaluate\<close> returns
  the multi-fetch's error.
\<close>

theorem Evaluate_fetch_counterexample:
  "FetchLimit_Consume (failingFetchContext 1000) 0 1 = (True, 1)
   \<and> Evaluate fetchExpression (failingFetchContext 1000) 0
       = (Inl (ExternalError ''fetch timeout''),
          1,
          [\<lparr>Metrics = [\<lparr>MetricKey = ''cpu'', MetricTagSet = [''host'' \<mapsto> ''a'']\<rparr>],
            RequestSampleMethod = SampleMean,
            RequestTimerange = \<lparr>start_ms = 0, end_ms = 30000, resolution_ms = 30000\<rparr>\<rparr>])"
  by (simp add: failingFetchContext_def fetchContext_def fetchExpression_def Evaluate_def
        Let_def lookup_def)


section \<open>Naming rules\<close>




















end
